theory Spec2Isabelle
  imports Complex_Main "HOL-Library.Multiset"
begin

section \<open>JavaScript values\<close>

text \<open>
  A JavaScript \<^verbatim>\<open>number\<close> is modelled as an exact rational. The numbers of the survey
  are the integers 1 to 10 (the buttons of \<^verbatim>\<open>renderLikertScale\<close>), their sums are far
  below \<open>2^53\<close> and therefore exact in IEEE double arithmetic; a quotient is in the
  program the double nearest to the rational computed here. NaN and the infinities are
  not modelled. A string is a list of characters, one per UTF-16 code unit, which is
  what \<^verbatim>\<open>.length\<close> counts. A timestamp (\<^verbatim>\<open>new Date().toISOString()\<close>) is modelled
  as the number of milliseconds it denotes.
\<close>

type_synonym number = rat
type_synonym timestamp = nat

datatype jsval =
    JUndefined
  | JNull
  | JBool bool
  | JNumber number
  | JString string
  | JArray "jsval list"
  | JObject "(string \<times> jsval) list"

text \<open>The truthiness test of \<^verbatim>\<open>if (v)\<close>, \<^verbatim>\<open>!v\<close> and \<^verbatim>\<open>a || b\<close>.\<close>

fun truthy :: "jsval \<Rightarrow> bool" where
  "truthy JUndefined = False"
| "truthy JNull = False"
| "truthy (JBool b) = b"
| "truthy (JNumber n) = (n \<noteq> 0)"
| "truthy (JString s) = (s \<noteq> [])"
| "truthy (JArray _) = True"
| "truthy (JObject _) = True"

text \<open>\<^verbatim>\<open>typeof val === 'string'\<close>\<close>

fun typeof_string :: "jsval \<Rightarrow> bool" where
  "typeof_string (JString _) = True"
| "typeof_string _ = False"

text \<open>\<^verbatim>\<open>(val as string).length\<close>, applied after the \<^verbatim>\<open>typeof\<close> filter only.\<close>

fun string_length :: "jsval \<Rightarrow> nat" where
  "string_length (JString s) = length s"
| "string_length _ = 0"

text \<open>\<^verbatim>\<open>Object.values(o)\<close>: the property values in insertion order.\<close>

definition Object_values :: "(string \<times> jsval) list \<Rightarrow> jsval list" where
  "Object_values obj = map snd obj"

section \<open>The survey response (\<^verbatim>\<open>interface FormData\<close>)\<close>

record FormData =
  email :: string
  firstName :: string
  lastName :: string
  age :: "number option"
  phone :: string
  preferredTimes :: "string list"
  socialLinks :: string
  jobCareer :: string
  lifeAchievements :: string
  dreamBuilding :: string
  communitySpace :: string
  coreValues :: string
  qualitiesSeek :: string
  dealBreakers :: string
  skillsAbilities :: string
  startVillage :: number
  spirituality :: number
  ambition :: number
  familyOrientation :: number
  wealthOrientation :: number
  teamwork :: number
  agency :: number
  preparedness :: number
  locationFreedom :: number
  existingCommunity :: number
  empathy :: number
  offGridVillage :: number
  nomadicTribe :: number
  businessStartup :: number
  wellnessCenter :: number
  spiritualCenter :: number
  techHub :: number
  startupNation :: number

text \<open>
  The values a rating can take in the form: the ten buttons of \<^verbatim>\<open>renderLikertScale\<close>
  (\<^verbatim>\<open>[1, 2, 3, 4, 5, 6, 7, 8, 9, 10].map(...)\<close>); the initial state of the form sets every
  rating to 5.
\<close>

definition likert_buttons :: "number list" where
  "likert_buttons = [1, 2, 3, 4, 5, 6, 7, 8, 9, 10]"

definition likert_fields :: "FormData \<Rightarrow> number list" where
  "likert_fields fd =
     [startVillage fd, spirituality fd, ambition fd, familyOrientation fd,
      wealthOrientation fd, teamwork fd, agency fd, preparedness fd, locationFreedom fd,
      existingCommunity fd, empathy fd, offGridVillage fd, nomadicTribe fd,
      businessStartup fd, wellnessCenter fd, spiritualCenter fd, techHub fd,
      startupNation fd]"

definition likert_valid :: "FormData \<Rightarrow> bool" where
  "likert_valid fd = list_all (\<lambda>v. v \<in> set likert_buttons) (likert_fields fd)"

text \<open>
  Property access by name, \<^verbatim>\<open>formData[field as keyof FormData]\<close>; a name that is not a
  property reads \<^verbatim>\<open>undefined\<close>.
\<close>

definition get_field :: "FormData \<Rightarrow> string \<Rightarrow> jsval" where
  "get_field fd field =
    (if field = ''email'' then JString (email fd)
     else if field = ''firstName'' then JString (firstName fd)
     else if field = ''lastName'' then JString (lastName fd)
     else if field = ''age'' then (case age fd of None \<Rightarrow> JNull | Some a \<Rightarrow> JNumber a)
     else if field = ''phone'' then JString (phone fd)
     else if field = ''preferredTimes'' then JArray (map JString (preferredTimes fd))
     else if field = ''socialLinks'' then JString (socialLinks fd)
     else if field = ''jobCareer'' then JString (jobCareer fd)
     else if field = ''lifeAchievements'' then JString (lifeAchievements fd)
     else if field = ''dreamBuilding'' then JString (dreamBuilding fd)
     else if field = ''communitySpace'' then JString (communitySpace fd)
     else if field = ''coreValues'' then JString (coreValues fd)
     else if field = ''qualitiesSeek'' then JString (qualitiesSeek fd)
     else if field = ''dealBreakers'' then JString (dealBreakers fd)
     else if field = ''skillsAbilities'' then JString (skillsAbilities fd)
     else if field = ''startVillage'' then JNumber (startVillage fd)
     else if field = ''spirituality'' then JNumber (spirituality fd)
     else if field = ''ambition'' then JNumber (ambition fd)
     else if field = ''familyOrientation'' then JNumber (familyOrientation fd)
     else if field = ''wealthOrientation'' then JNumber (wealthOrientation fd)
     else if field = ''teamwork'' then JNumber (teamwork fd)
     else if field = ''agency'' then JNumber (agency fd)
     else if field = ''preparedness'' then JNumber (preparedness fd)
     else if field = ''locationFreedom'' then JNumber (locationFreedom fd)
     else if field = ''existingCommunity'' then JNumber (existingCommunity fd)
     else if field = ''empathy'' then JNumber (empathy fd)
     else if field = ''offGridVillage'' then JNumber (offGridVillage fd)
     else if field = ''nomadicTribe'' then JNumber (nomadicTribe fd)
     else if field = ''businessStartup'' then JNumber (businessStartup fd)
     else if field = ''wellnessCenter'' then JNumber (wellnessCenter fd)
     else if field = ''spiritualCenter'' then JNumber (spiritualCenter fd)
     else if field = ''techHub'' then JNumber (techHub fd)
     else if field = ''startupNation'' then JNumber (startupNation fd)
     else JUndefined)"

section \<open>The objects built by \<^verbatim>\<open>submitUserForm\<close>\<close>

text \<open>
  \<^verbatim>\<open>mcResponses\<close>: the eighteen ratings under their stored names. Six of the names are
  also names of \<^verbatim>\<open>FormData\<close>; they carry the suffix \<open>_mc\<close> here.
\<close>

record mc_responses =
  start_village :: number
  spirituality_mc :: number
  ambition_mc :: number
  family_orientation :: number
  wealth_orientation :: number
  teamwork_mc :: number
  agency_mc :: number
  preparedness_mc :: number
  location_freedom :: number
  existing_community :: number
  empathy_mc :: number
  interest_off_grid :: number
  interest_nomadic :: number
  interest_business :: number
  interest_wellness :: number
  interest_spiritual :: number
  interest_tech_hub :: number
  interest_startup_nation :: number

definition mcResponses :: "FormData \<Rightarrow> mc_responses" where
  "mcResponses formData =
    \<lparr> start_village = startVillage formData,
      spirituality_mc = spirituality formData,
      ambition_mc = ambition formData,
      family_orientation = familyOrientation formData,
      wealth_orientation = wealthOrientation formData,
      teamwork_mc = teamwork formData,
      agency_mc = agency formData,
      preparedness_mc = preparedness formData,
      location_freedom = locationFreedom formData,
      existing_community = existingCommunity formData,
      empathy_mc = empathy formData,
      interest_off_grid = offGridVillage formData,
      interest_nomadic = nomadicTribe formData,
      interest_business = businessStartup formData,
      interest_wellness = wellnessCenter formData,
      interest_spiritual = spiritualCenter formData,
      interest_tech_hub = techHub formData,
      interest_startup_nation = startupNation formData \<rparr>"

text \<open>
  \<^verbatim>\<open>freeResponses\<close>: an object of eight properties. \<^verbatim>\<open>calculateAvgResponseLength\<close>
  takes it as \<^verbatim>\<open>any\<close> and walks \<^verbatim>\<open>Object.values\<close>, so it is kept as the list of its
  properties in insertion order.
\<close>

definition freeResponses :: "FormData \<Rightarrow> (string \<times> jsval) list" where
  "freeResponses formData =
    [(''job_career'', JString (jobCareer formData)),
     (''life_achievements'', JString (lifeAchievements formData)),
     (''dream_building'', JString (dreamBuilding formData)),
     (''community_space'', JString (communitySpace formData)),
     (''core_values'', JString (coreValues formData)),
     (''qualities_seek'', JString (qualitiesSeek formData)),
     (''deal_breakers'', JString (dealBreakers formData)),
     (''skills_abilities'', JString (skillsAbilities formData))]"

text \<open>
  \<^verbatim>\<open>formResponses\<close>: the preferred times, the two objects above spread into it, the survey
  version and the time of submission. The spread is kept as the two objects themselves.
\<close>

record form_responses =
  preferred_times :: "string list"
  spread_mc :: mc_responses
  spread_free :: "(string \<times> jsval) list"
  survey_version :: number
  submitted_at :: timestamp

definition formResponses :: "FormData \<Rightarrow> timestamp \<Rightarrow> form_responses" where
  "formResponses formData now =
    \<lparr> preferred_times = preferredTimes formData,
      spread_mc = mcResponses formData,
      spread_free = freeResponses formData,
      survey_version = 2,
      submitted_at = now \<rparr>"

record attribute_scores_t =
  seeks_new_community :: number
  seeks_high_tech :: number
  seeks_return_to_land :: number
  seeks_entrepreneurship :: number
  seeks_spiritual_community :: number
  seeks_health_fitness :: number
  seeks_travel :: number
  seeks_breakaway_society :: number
  ambitious :: number
  wealth_oriented :: number
  family_oriented :: number
  teamwork_oriented :: number
  religious :: number
  high_agency :: number
  high_skills :: number
  high_empathy :: number
  high_location_freedom :: number
  high_resources :: number
  readiness_score :: number
  community_interest_avg :: number

definition attributeScores :: "FormData \<Rightarrow> attribute_scores_t" where
  "attributeScores formData =
    \<lparr> seeks_new_community = startVillage formData,
      seeks_high_tech = techHub formData,
      seeks_return_to_land = offGridVillage formData,
      seeks_entrepreneurship = businessStartup formData,
      seeks_spiritual_community = spiritualCenter formData,
      seeks_health_fitness = wellnessCenter formData,
      seeks_travel = nomadicTribe formData,
      seeks_breakaway_society = startupNation formData,
      ambitious = ambition formData,
      wealth_oriented = wealthOrientation formData,
      family_oriented = familyOrientation formData,
      teamwork_oriented = teamwork formData,
      religious = spirituality formData,
      high_agency = agency formData,
      high_skills = preparedness formData,
      high_empathy = empathy formData,
      high_location_freedom = locationFreedom formData,
      high_resources = existingCommunity formData,
      readiness_score =
        (agency formData + preparedness formData + locationFreedom formData) / 3,
      community_interest_avg =
        (offGridVillage formData + nomadicTribe formData + businessStartup formData
         + wellnessCenter formData + spiritualCenter formData + techHub formData
         + startupNation formData) / 7 \<rparr>"

section \<open>The quality metrics\<close>

definition requiredFields :: "string list" where
  "requiredFields =
    [''email'', ''firstName'', ''lastName'', ''jobCareer'',
     ''lifeAchievements'', ''dreamBuilding'', ''communitySpace'',
     ''coreValues'', ''qualitiesSeek'', ''dealBreakers'', ''skillsAbilities'']"

text \<open>The \<^verbatim>\<open>forEach\<close> loop of \<^verbatim>\<open>calculateCompleteness\<close> with its counter.\<close>

definition filledCount :: "FormData \<Rightarrow> nat" where
  "filledCount formData =
     fold (\<lambda>field count. if truthy (get_field formData field) then count + 1 else count)
       requiredFields 0"

definition calculateCompleteness :: "FormData \<Rightarrow> number" where
  "calculateCompleteness formData =
     (of_nat (filledCount formData) / of_nat (length requiredFields)) * 100"

definition response_lengths :: "(string \<times> jsval) list \<Rightarrow> nat list" where
  "response_lengths freeResp = map string_length (filter typeof_string (Object_values freeResp))"

definition calculateAvgResponseLength :: "(string \<times> jsval) list \<Rightarrow> number" where
  "calculateAvgResponseLength freeResp =
     (let lengths = response_lengths freeResp in
      if length lengths = 0 then 0
      else of_nat (foldl (+) 0 lengths) / of_nat (length lengths))"

definition consistencyChecks :: "mc_responses \<Rightarrow> bool list" where
  "consistencyChecks mc =
    [\<bar>start_village mc - interest_off_grid mc\<bar> \<le> 3,
     \<bar>spirituality_mc mc - interest_spiritual mc\<bar> \<le> 3,
     \<bar>ambition_mc mc - interest_business mc\<bar> \<le> 3]"

definition calculateConsistency :: "mc_responses \<Rightarrow> number" where
  "calculateConsistency mc =
     (let passedChecks = length (filter (\<lambda>check. check) (consistencyChecks mc)) in
      (of_nat passedChecks / of_nat (length (consistencyChecks mc))) * 100)"

record quality_metrics_t =
  completeness :: number
  response_length_avg :: number
  consistency_score :: number

section \<open>The stored record and the store\<close>

text \<open>
  \<^verbatim>\<open>userData\<close>, the object handed to the insert. Three of its names are also names of
  \<^verbatim>\<open>FormData\<close>; they carry the suffix \<open>_ud\<close> here. The three timestamps are three
  separate readings of the clock.
\<close>

record user_data =
  email_ud :: string
  first_name :: string
  last_name :: string
  age_ud :: "number option"
  phone_ud :: string
  social_links :: string
  form_responses :: form_responses
  mc_responses :: mc_responses
  free_responses :: "(string \<times> jsval) list"
  attribute_scores :: attribute_scores_t
  quality_metrics :: quality_metrics_t
  quality_status :: string
  should_match :: bool
  status :: string
  is_synthetic :: bool
  created_at :: timestamp
  updated_at :: timestamp

definition userData :: "FormData \<Rightarrow> timestamp \<Rightarrow> timestamp \<Rightarrow> timestamp \<Rightarrow> user_data" where
  "userData formData now1 now2 now3 =
    \<lparr> email_ud = email formData,
      first_name = firstName formData,
      last_name = lastName formData,
      age_ud = age formData,
      phone_ud = phone formData,
      social_links = socialLinks formData,
      form_responses = formResponses formData now1,
      mc_responses = mcResponses formData,
      free_responses = freeResponses formData,
      attribute_scores = attributeScores formData,
      quality_metrics =
        \<lparr> completeness = calculateCompleteness formData,
          response_length_avg = calculateAvgResponseLength (freeResponses formData),
          consistency_score = calculateConsistency (mcResponses formData) \<rparr>,
      quality_status = ''pending'',
      should_match = False,
      status = ''new'',
      is_synthetic = False,
      created_at = now2,
      updated_at = now3 \<rparr>"

text \<open>
  A row of the table \<^verbatim>\<open>test_users_pool_1\<close>: the inserted object together with the
  columns the database owns, the key \<^verbatim>\<open>id\<close> (here \<open>id_row\<close>) and the field \<^verbatim>\<open>user_matches\<close> that the
  matching job fills in later.
\<close>

record row = user_data +
  id_row :: string
  user_matches :: jsval

definition stored_row :: "user_data \<Rightarrow> string \<Rightarrow> row" where
  "stored_row u new_id = user_data.extend u \<lparr> id_row = new_id, user_matches = JNull \<rparr>"

text \<open>
  What is thrown: \<^verbatim>\<open>new Error(message)\<close> by \<^verbatim>\<open>submitUserForm\<close>, the error object of the
  client by the queries.
\<close>

datatype exn = Error string | PostgrestError string

text \<open>
  The store is outside the program. An insert is answered either with the inserted row
  (the database chooses its \<^verbatim>\<open>id\<close>) or with an error and no change of the table; a
  query either fails as a whole (\<open>Some message\<close>) or is evaluated on the table.
\<close>

datatype insert_response = InsertOk string | InsertError string

text \<open>
  \<^verbatim>\<open>submitUserForm\<close>: builds the record, inserts it, returns the stored row or throws
  \<^verbatim>\<open>new Error(error.message || 'Failed to submit to Supabase')\<close>. The enclosing
  \<^verbatim>\<open>try/catch\<close> logs and rethrows. The second component is the table afterwards.
\<close>

definition submitUserForm ::
  "FormData \<Rightarrow> timestamp \<Rightarrow> timestamp \<Rightarrow> timestamp \<Rightarrow> insert_response \<Rightarrow> row list
     \<Rightarrow> (exn + row) \<times> row list" where
  "submitUserForm formData now1 now2 now3 response table =
    (let u = userData formData now1 now2 now3 in
     case response of
       InsertError message \<Rightarrow>
         (Inl (Error (if truthy (JString message) then message
                      else ''Failed to submit to Supabase'')), table)
     | InsertOk new_id \<Rightarrow>
         (let data = stored_row u new_id in (Inr data, table @ [data])))"

text \<open>\<^verbatim>\<open>.order('created_at', { ascending: false })\<close>\<close>

definition order_created_at_desc :: "row list \<Rightarrow> row list" where
  "order_created_at_desc rows = rev (sort_key created_at rows)"

text \<open>
  \<^verbatim>\<open>getUserById\<close>: \<^verbatim>\<open>.eq('id', userId).single()\<close> is an error unless exactly one row
  matches.
\<close>

definition getUserById :: "string option \<Rightarrow> row list \<Rightarrow> string \<Rightarrow> exn + row" where
  "getUserById fault table uid =
    (case fault of
       Some message \<Rightarrow> Inl (PostgrestError message)
     | None \<Rightarrow>
        (case filter (\<lambda>r. id_row r = uid) table of
           [r] \<Rightarrow> Inr r
         | _ \<Rightarrow> Inl (PostgrestError ''JSON object requested, multiple (or no) rows returned'')))"

definition getAllRealUsers :: "string option \<Rightarrow> row list \<Rightarrow> exn + row list" where
  "getAllRealUsers fault table =
    (case fault of
       Some message \<Rightarrow> Inl (PostgrestError message)
     | None \<Rightarrow> Inr (order_created_at_desc (filter (\<lambda>r. is_synthetic r = False) table)))"

definition getMatchableUsers :: "string option \<Rightarrow> row list \<Rightarrow> exn + row list" where
  "getMatchableUsers fault table =
    (case fault of
       Some message \<Rightarrow> Inl (PostgrestError message)
     | None \<Rightarrow>
         Inr (order_created_at_desc
               (filter (\<lambda>r. quality_status r = ''approved'')
                 (filter (\<lambda>r. should_match r = True) table))))"

section \<open>Polling for the matches (\<^verbatim>\<open>SurveyForm\<close>)\<close>

text \<open>
  The state of the component that the polling effect reads and writes, and three
  observers of its run: the number of calls of \<^verbatim>\<open>getUserById\<close> issued, the time spent
  in timers, and the messages written (\<^verbatim>\<open>console.log\<close>, \<^verbatim>\<open>console.error\<close>,
  \<^verbatim>\<open>alert\<close>) by \<^verbatim>\<open>checkForMatches\<close>.
\<close>

datatype message = ConsoleLog string | ConsoleError string | Alert string

record poll_state =
  processing :: bool
  userId :: "string option"
  matchData :: jsval
  pollAttempts :: nat
  reads :: nat
  waited :: nat
  messages :: "message list"

definition maxAttempts :: nat where
  "maxAttempts = 20"

definition pollInterval :: nat where
  "pollInterval = 3000"

text \<open>
  The body of \<^verbatim>\<open>checkForMatches\<close> after the read: the \<^verbatim>\<open>try\<close> branch on a row, the
  \<^verbatim>\<open>catch\<close> branch on an exception.
\<close>

definition checkForMatches :: "poll_state \<Rightarrow> exn + row \<Rightarrow> poll_state" where
  "checkForMatches st result =
    (case result of
       Inl error \<Rightarrow>
         st \<lparr> processing := False,
              messages := messages st @ [ConsoleError ''Error polling for matches:''] \<rparr>
     | Inr user \<Rightarrow>
         (let st1 = st \<lparr> messages := messages st @ [ConsoleLog ''Polling attempt''] \<rparr> in
          if truthy (user_matches user) then
            st1 \<lparr> matchData := user_matches user,
                  processing := False,
                  messages := messages st1 @ [ConsoleLog ''Matches found!''] \<rparr>
          else if pollAttempts st \<ge> maxAttempts then
            st1 \<lparr> processing := False,
                  messages := messages st1 @
                    [ConsoleLog ''Max polling attempts reached'',
                     Alert ''Match calculation is taking longer than expected. Please check back later.''] \<rparr>
          else
            st1 \<lparr> pollAttempts := pollAttempts st + 1 \<rparr>))"

text \<open>
  \<^verbatim>\<open>if (!processing || !userId) return\<close>: the effect sets no timer.
\<close>

definition idle :: "poll_state \<Rightarrow> bool" where
  "idle st = (\<not> processing st \<or> (case userId st of None \<Rightarrow> True | Some u \<Rightarrow> \<not> truthy (JString u)))"

text \<open>
  One run of the effect that sets a timer: the timer fires after \<^verbatim>\<open>pollInterval\<close>, the
  record is read from the store as it is then, and \<^verbatim>\<open>checkForMatches\<close> decides.
\<close>

definition poll_once :: "(string option \<times> row list) \<Rightarrow> poll_state \<Rightarrow> poll_state" where
  "poll_once store st =
    (case userId st of
       None \<Rightarrow> st
     | Some uid \<Rightarrow>
         checkForMatches
           (st \<lparr> reads := reads st + 1, waited := waited st + pollInterval \<rparr>)
           (getUserById (fst store) (snd store) uid))"

text \<open>
  The effect runs again whenever \<^verbatim>\<open>processing\<close>, \<^verbatim>\<open>userId\<close> or \<^verbatim>\<open>pollAttempts\<close>
  changes; the store at the time of the k-th read is \<open>store k\<close>. Polling is over when the
  effect sets no timer.
\<close>

function run_polling :: "(nat \<Rightarrow> string option \<times> row list) \<Rightarrow> poll_state \<Rightarrow> poll_state" where
  "run_polling store st =
     (if idle st then st else run_polling store (poll_once (store (reads st)) st))"
  by pat_completeness auto
termination
  by (relation "measure (\<lambda>(store, st). if idle st then 0 else Suc (maxAttempts - pollAttempts st))")
     (auto simp: idle_def poll_once_def checkForMatches_def Let_def
           split: sum.splits option.splits if_splits)

declare run_polling.simps [simp del]

text \<open>The state in which \<^verbatim>\<open>handleSubmit\<close> leaves the component after a submission.\<close>

definition after_submit :: "string \<Rightarrow> poll_state" where
  "after_submit uid =
     \<lparr> processing = True, userId = Some uid, matchData = JNull, pollAttempts = 0,
       reads = 0, waited = 0, messages = [] \<rparr>"

section \<open>Reference formulations and example inputs\<close>

text \<open>The eleven answers that \<^verbatim>\<open>requiredFields\<close> names, in its order.\<close>

definition required_answers :: "FormData \<Rightarrow> string list" where
  "required_answers fd =
    [email fd, firstName fd, lastName fd, jobCareer fd, lifeAchievements fd,
     dreamBuilding fd, communitySpace fd, coreValues fd, qualitiesSeek fd,
     dealBreakers fd, skillsAbilities fd]"

text \<open>The eight free-text answers, in the order of \<^verbatim>\<open>freeResponses\<close>.\<close>

definition free_text_answers :: "FormData \<Rightarrow> string list" where
  "free_text_answers fd =
    [jobCareer fd, lifeAchievements fd, dreamBuilding fd, communitySpace fd,
     coreValues fd, qualitiesSeek fd, dealBreakers fd, skillsAbilities fd]"

text \<open>
  The average response length in the words of the specification: the mean length of the
  answers that are non-empty strings, 0 if there is none. It is compared below with
  \<^const>\<open>calculateAvgResponseLength\<close>.
\<close>

definition mean_length_of_nonempty :: "string list \<Rightarrow> number" where
  "mean_length_of_nonempty answers =
    (let nonempty = filter (\<lambda>s. s \<noteq> []) answers in
     if nonempty = [] then 0
     else of_nat (sum_list (map length nonempty)) / of_nat (length nonempty))"

text \<open>The alerts and the error messages among the messages written.\<close>

fun alerts :: "message list \<Rightarrow> string list" where
  "alerts [] = []"
| "alerts (Alert a # ms) = a # alerts ms"
| "alerts (_ # ms) = alerts ms"

fun console_errors :: "message list \<Rightarrow> string list" where
  "console_errors [] = []"
| "console_errors (ConsoleError e # ms) = e # console_errors ms"
| "console_errors (_ # ms) = console_errors ms"

text \<open>
  A response as the form produces it: every rating is one of the ten buttons; three of
  the eleven required answers are empty.
\<close>

definition example_response :: FormData where
  "example_response =
    \<lparr> email = ''ann@example.org'', firstName = ''Ann'', lastName = ''Lee'',
      age = Some 30, phone = [], preferredTimes = [''evening''], socialLinks = [],
      jobCareer = ''nurse'', lifeAchievements = ''marathon'', dreamBuilding = ''school'',
      communitySpace = ''garden'', coreValues = [], qualitiesSeek = [],
      dealBreakers = [], skillsAbilities = ''first aid'',
      startVillage = 8, spirituality = 5, ambition = 7, familyOrientation = 5,
      wealthOrientation = 5, teamwork = 5, agency = 5, preparedness = 5,
      locationFreedom = 6, existingCommunity = 5, empathy = 5,
      offGridVillage = 4, nomadicTribe = 6, businessStartup = 6, wellnessCenter = 5,
      spiritualCenter = 5, techHub = 5, startupNation = 5 \<rparr>"

text \<open>The same response with one rating above the scale.\<close>

definition out_of_range_response :: FormData where
  "out_of_range_response = example_response \<lparr> startVillage := 11 \<rparr>"

text \<open>The row of a submitted response that has no matches yet.\<close>

definition pending_row :: row where
  "pending_row = stored_row (userData example_response 1000 1000 1000) ''u1''"

text \<open>Two approved rows, the first created before the second.\<close>

definition early_row :: row where
  "early_row = (stored_row (userData example_response 1000 1000 1000) ''u1'')
     \<lparr> quality_status := ''approved'', should_match := True \<rparr>"

definition late_row :: row where
  "late_row = (stored_row (userData example_response 2000 2000 2000) ''u2'')
     \<lparr> quality_status := ''approved'', should_match := True \<rparr>"

text \<open>A store in which the matches never arrive, and one that cannot be read.\<close>

definition never_matched :: "nat \<Rightarrow> string option \<times> row list" where
  "never_matched k = (None, [pending_row])"

definition unreadable :: "nat \<Rightarrow> string option \<times> row list" where
  "unreadable k = (Some ''connection lost'', [pending_row])"

section \<open>Auxiliary facts\<close>

lemma stored_row_sel [simp]:
  "id_row (stored_row u i) = i"
  "user_matches (stored_row u i) = JNull"
  "quality_status (stored_row u i) = quality_status u"
  "should_match (stored_row u i) = should_match u"
  "is_synthetic (stored_row u i) = is_synthetic u"
  "created_at (stored_row u i) = created_at u"
  "attribute_scores (stored_row u i) = attribute_scores u"
  "quality_metrics (stored_row u i) = quality_metrics u"
  by (simp_all add: stored_row_def user_data.defs)

lemma foldl_plus: "foldl (+) (a::nat) xs = a + sum_list xs"
  by (induction xs arbitrary: a) auto

lemma count_fold:
  "fold (\<lambda>x (c::nat). if P x then c + 1 else c) xs n = n + length (filter P xs)"
  by (induction xs arbitrary: n) auto

text \<open>The counter of \<^verbatim>\<open>calculateCompleteness\<close> counts the non-empty required answers.\<close>

lemma filledCount_nonempty:
  "filledCount fd = length (filter (\<lambda>s. s \<noteq> []) (required_answers fd))"
proof -
  have m: "map (get_field fd) requiredFields = map JString (required_answers fd)"
    by (simp add: requiredFields_def get_field_def required_answers_def)
  have "filledCount fd = length (filter truthy (map (get_field fd) requiredFields))"
    by (simp add: filledCount_def count_fold filter_map comp_def)
  also have "\<dots> = length (filter (\<lambda>s. s \<noteq> []) (required_answers fd))"
    by (simp add: m filter_map comp_def)
  finally show ?thesis .
qed

lemma example_response_valid: "likert_valid example_response"
  by (simp add: likert_valid_def likert_fields_def likert_buttons_def example_response_def)

lemma alerts_append_error: "alerts (ms @ [ConsoleError x]) = alerts ms"
  by (induction ms rule: alerts.induct) simp_all

lemma console_errors_append_error:
  "console_errors (ms @ [ConsoleError x]) = console_errors ms @ [x]"
  by (induction ms rule: console_errors.induct) simp_all

lemma alerts_replicate_log: "alerts (replicate n (ConsoleLog x) @ ms) = alerts ms"
  by (induction n) simp_all

lemma order_desc_sorted: "sorted (rev (map created_at (order_created_at_desc rows)))"
  by (simp add: order_created_at_desc_def rev_map)

lemma order_desc_mset: "mset (order_created_at_desc rows) = mset rows"
  by (simp add: order_created_at_desc_def)

lemma pending_row_read:
  "getUserById None [pending_row] ''u1'' = Inr pending_row"
  "\<not> truthy (user_matches pending_row)"
  by (simp_all add: getUserById_def pending_row_def)

text \<open>
  A run in which every read returns a row without matches: from \<open>pollAttempts = p\<close> it
  reads \<open>maxAttempts - p + 1\<close> times and then gives up with the alert.
\<close>

lemma never_matched_run:
  assumes "\<And>k. \<exists>r. getUserById (fst (store k)) (snd (store k)) uid = Inr r
              \<and> \<not> truthy (user_matches r)"
    and "processing st" and "userId st = Some uid" and "uid \<noteq> []"
    and "pollAttempts st \<le> maxAttempts"
  shows "run_polling store st =
     st \<lparr> processing := False, pollAttempts := maxAttempts,
          reads := reads st + (maxAttempts - pollAttempts st) + 1,
          waited := waited st + pollInterval * ((maxAttempts - pollAttempts st) + 1),
          messages := messages st
             @ concat (replicate (maxAttempts - pollAttempts st) [ConsoleLog ''Polling attempt''])
             @ [ConsoleLog ''Polling attempt'', ConsoleLog ''Max polling attempts reached'',
                Alert ''Match calculation is taking longer than expected. Please check back later.''] \<rparr>"
  using assms(2-)
proof (induction "maxAttempts - pollAttempts st" arbitrary: st)
  case 0
  obtain r where r: "getUserById (fst (store (reads st))) (snd (store (reads st))) uid = Inr r"
    "\<not> truthy (user_matches r)" using assms(1) by blast
  have ni: "\<not> idle st" using 0 by (simp add: idle_def)
  have eq: "pollAttempts st = maxAttempts" using 0 by simp
  have p: "poll_once (store (reads st)) st =
     st \<lparr> processing := False, reads := reads st + 1, waited := waited st + pollInterval,
       messages := messages st @
             [ConsoleLog ''Polling attempt'', ConsoleLog ''Max polling attempts reached'',
                Alert ''Match calculation is taking longer than expected. Please check back later.''] \<rparr>"
    using 0 r by (simp add: poll_once_def checkForMatches_def Let_def)
  have "run_polling store st = run_polling store (poll_once (store (reads st)) st)"
    using ni by (subst run_polling.simps) simp
  also have "\<dots> = poll_once (store (reads st)) st"
    by (subst run_polling.simps) (simp add: p idle_def)
  finally show ?case using eq by (simp add: p)
next
  case (Suc n)
  obtain r where r: "getUserById (fst (store (reads st))) (snd (store (reads st))) uid = Inr r"
    "\<not> truthy (user_matches r)" using assms(1) by blast
  have ni: "\<not> idle st" using Suc by (simp add: idle_def)
  have lt: "pollAttempts st < maxAttempts" using Suc by simp
  let ?st' = "poll_once (store (reads st)) st"
  have d: "maxAttempts - pollAttempts st = Suc n" using Suc.hyps(2) by simp
  have p: "?st' =
     st \<lparr> pollAttempts := pollAttempts st + 1, reads := reads st + 1,
          waited := waited st + pollInterval,
          messages := messages st @ [ConsoleLog ''Polling attempt''] \<rparr>"
    using Suc r lt by (simp add: poll_once_def checkForMatches_def Let_def)
  have d': "maxAttempts - pollAttempts ?st' = n" using d by (simp add: p)
  have "run_polling store st = run_polling store ?st'"
    using ni by (subst run_polling.simps) simp
  also have "\<dots> = ?st' \<lparr> processing := False, pollAttempts := maxAttempts,
          reads := reads ?st' + (maxAttempts - pollAttempts ?st') + 1,
          waited := waited ?st' + pollInterval * ((maxAttempts - pollAttempts ?st') + 1),
          messages := messages ?st'
             @ concat (replicate (maxAttempts - pollAttempts ?st') [ConsoleLog ''Polling attempt''])
             @ [ConsoleLog ''Polling attempt'', ConsoleLog ''Max polling attempts reached'',
                Alert ''Match calculation is taking longer than expected. Please check back later.''] \<rparr>"
    using Suc.prems lt d by (intro Suc.hyps(1)) (simp_all add: p)
  finally show ?case
    using d d' by (simp add: p)
qed

text \<open>
  Whatever the store answers, a run reads the record at most once more than the
  attempts that are left: polling from the state after a submission stops after at
  most \<open>maxAttempts + 1\<close> reads.
\<close>

lemma run_polling_reads_bound:
  "pollAttempts st \<le> maxAttempts \<Longrightarrow>
   reads (run_polling store st) \<le> reads st + (maxAttempts - pollAttempts st) + 1"
proof (induction store st rule: run_polling.induct)
  case (1 store st)
  show ?case
  proof (cases "idle st")
    case True
    then show ?thesis by (subst run_polling.simps) simp
  next
    case False
    let ?st' = "poll_once (store (reads st)) st"
    have r: "run_polling store st = run_polling store ?st'"
      using False by (subst run_polling.simps) simp
    have rd: "reads ?st' = reads st + 1"
      using False
      by (auto simp: idle_def poll_once_def checkForMatches_def Let_def
               split: option.splits sum.splits)
    show ?thesis
    proof (cases "processing ?st'")
      case True
      then have pa: "pollAttempts ?st' = pollAttempts st + 1" "pollAttempts st < maxAttempts"
        using False
        by (auto simp: idle_def poll_once_def checkForMatches_def Let_def
                 split: option.splits sum.splits if_splits)
      then have "reads (run_polling store ?st') \<le> reads ?st' + (maxAttempts - pollAttempts ?st') + 1"
        using "1.IH" [OF False] by simp
      then show ?thesis using r rd pa by simp
    next
      case F: False
      then have "run_polling store ?st' = ?st'"
        by (subst run_polling.simps) (simp add: idle_def)
      then show ?thesis using r rd by simp
    qed
  qed
qed

lemma after_submit_reads_bound:
  "reads (run_polling store (after_submit uid)) \<le> maxAttempts + 1"
  using run_polling_reads_bound [of "after_submit uid" store]
  by (simp add: after_submit_def)

section \<open>Vectorization\<close>

text \<open>
  C1. For every response whose eighteen ratings are values of the scale, the attribute
  scores of the stored record carry each rating unchanged under its dimension, the
  readiness score is the sum of agency, preparedness and location freedom divided by 3,
  and the community interest average is the sum of the seven interest ratings divided
  by 7; no value is rescaled or rounded.
\<close>

theorem attribute_scores_copy_and_means:
  assumes "likert_valid fd"
  shows "seeks_new_community (attribute_scores (userData fd now1 now2 now3)) = startVillage fd
    \<and> seeks_high_tech (attribute_scores (userData fd now1 now2 now3)) = techHub fd
    \<and> seeks_return_to_land (attribute_scores (userData fd now1 now2 now3)) = offGridVillage fd
    \<and> seeks_entrepreneurship (attribute_scores (userData fd now1 now2 now3)) = businessStartup fd
    \<and> seeks_spiritual_community (attribute_scores (userData fd now1 now2 now3)) = spiritualCenter fd
    \<and> seeks_health_fitness (attribute_scores (userData fd now1 now2 now3)) = wellnessCenter fd
    \<and> seeks_travel (attribute_scores (userData fd now1 now2 now3)) = nomadicTribe fd
    \<and> seeks_breakaway_society (attribute_scores (userData fd now1 now2 now3)) = startupNation fd
    \<and> ambitious (attribute_scores (userData fd now1 now2 now3)) = ambition fd
    \<and> wealth_oriented (attribute_scores (userData fd now1 now2 now3)) = wealthOrientation fd
    \<and> family_oriented (attribute_scores (userData fd now1 now2 now3)) = familyOrientation fd
    \<and> teamwork_oriented (attribute_scores (userData fd now1 now2 now3)) = teamwork fd
    \<and> religious (attribute_scores (userData fd now1 now2 now3)) = spirituality fd
    \<and> high_agency (attribute_scores (userData fd now1 now2 now3)) = agency fd
    \<and> high_skills (attribute_scores (userData fd now1 now2 now3)) = preparedness fd
    \<and> high_empathy (attribute_scores (userData fd now1 now2 now3)) = empathy fd
    \<and> high_location_freedom (attribute_scores (userData fd now1 now2 now3)) = locationFreedom fd
    \<and> high_resources (attribute_scores (userData fd now1 now2 now3)) = existingCommunity fd
    \<and> readiness_score (attribute_scores (userData fd now1 now2 now3))
         = (agency fd + preparedness fd + locationFreedom fd) / 3
    \<and> community_interest_avg (attribute_scores (userData fd now1 now2 now3))
         = (offGridVillage fd + nomadicTribe fd + businessStartup fd + wellnessCenter fd
            + spiritualCenter fd + techHub fd + startupNation fd) / 7"
  by (simp add: userData_def attributeScores_def)

text \<open>
  The example response: the ratings 5, 5 and 6 give the readiness score 16/3, which is
  kept as it is.
\<close>

theorem attribute_scores_copy_and_means_witness:
  "likert_valid example_response
   \<and> seeks_new_community (attribute_scores (userData example_response 1000 1000 1000)) = 8
   \<and> high_skills (attribute_scores (userData example_response 1000 1000 1000)) = 5
   \<and> readiness_score (attribute_scores (userData example_response 1000 1000 1000)) = 16 / 3
   \<and> community_interest_avg (attribute_scores (userData example_response 1000 1000 1000)) = 36 / 7"
proof -
  have h: "likert_valid example_response" by (rule example_response_valid)
  from attribute_scores_copy_and_means [OF h, of 1000 1000 1000] h show ?thesis
    by (simp add: example_response_def)
qed

section \<open>Quality metrics\<close>

text \<open>
  C2. The completeness of the stored record is the number of non-empty answers among
  the eleven required ones (email, first name, last name and the eight free-text
  answers), divided by 11, times 100; a response in which exactly three of the eleven
  are empty has completeness (8/11) * 100.
\<close>

theorem completeness_formula:
  "completeness (quality_metrics (userData fd now1 now2 now3))
     = of_nat (length (filter (\<lambda>s. s \<noteq> []) (required_answers fd))) / 11 * 100
   \<and> (length (filter (\<lambda>s. s = []) (required_answers fd)) = 3 \<longrightarrow>
        completeness (quality_metrics (userData fd now1 now2 now3)) = 8 / 11 * 100)"
proof -
  have c: "completeness (quality_metrics (userData fd now1 now2 now3))
     = of_nat (length (filter (\<lambda>s. s \<noteq> []) (required_answers fd))) / 11 * 100"
    by (simp add: userData_def calculateCompleteness_def filledCount_nonempty requiredFields_def)
  have "length (filter (\<lambda>s. s = []) (required_answers fd))
          + length (filter (\<lambda>s. s \<noteq> []) (required_answers fd)) = 11"
    using sum_length_filter_compl [of "\<lambda>s. s = []" "required_answers fd"]
    by (simp add: required_answers_def)
  then have "length (filter (\<lambda>s. s = []) (required_answers fd)) = 3 \<Longrightarrow>
     length (filter (\<lambda>s. s \<noteq> []) (required_answers fd)) = 8"
    by simp
  with c show ?thesis by simp
qed

text \<open>The example response lacks three required answers: its completeness is 800/11.\<close>

theorem completeness_formula_witness:
  "length (filter (\<lambda>s. s = []) (required_answers example_response)) = 3
   \<and> completeness (quality_metrics (userData example_response 1000 1000 1000)) = 800 / 11"
proof -
  have h: "length (filter (\<lambda>s. s = []) (required_answers example_response)) = 3"
    by (simp add: required_answers_def example_response_def)
  from completeness_formula [of example_response 1000 1000 1000] h
  have "completeness (quality_metrics (userData example_response 1000 1000 1000)) = 8 / 11 * 100"
    by blast
  with h show ?thesis by simp
qed

text \<open>
  C3, as stated, fails: the example response has five non-empty free-text answers of
  34 characters in all and three empty ones. The mean over the non-empty answers is
  34/5; the program divides by all eight and stores 17/4.
\<close>

theorem response_length_avg_counts_empty_answers:
  "response_length_avg (quality_metrics (userData example_response 1000 1000 1000)) = 17 / 4
   \<and> mean_length_of_nonempty (free_text_answers example_response) = 34 / 5"
  by (simp add: userData_def calculateAvgResponseLength_def response_lengths_def
       Object_values_def freeResponses_def mean_length_of_nonempty_def
       free_text_answers_def example_response_def)

text \<open>
  C3, amended. The average response length is the total length of the values that are
  strings divided by the number of such values, an empty string counting as a value of
  length 0, and it is 0 when no value is a string; for a survey response all eight
  free-text answers are strings, so the stored metric is their total length divided
  by 8.
\<close>

theorem response_length_avg_formula:
  "calculateAvgResponseLength obj =
     (if filter typeof_string (Object_values obj) = [] then 0
      else of_nat (sum_list (map string_length (filter typeof_string (Object_values obj))))
             / of_nat (length (filter typeof_string (Object_values obj))))
   \<and> response_length_avg (quality_metrics (userData fd now1 now2 now3))
       = of_nat (sum_list (map length (free_text_answers fd))) / 8"
  by (simp add: calculateAvgResponseLength_def response_lengths_def foldl_plus
       userData_def Object_values_def freeResponses_def free_text_answers_def)

text \<open>
  An object with a number, a string of two characters and an empty string: the number
  is left out, the empty string is counted.
\<close>

theorem response_length_avg_formula_witness:
  "calculateAvgResponseLength
      [(''a'', JNumber 3), (''b'', JString ''xy''), (''c'', JString [])] = 1
   \<and> response_length_avg (quality_metrics (userData example_response 1000 1000 1000)) = 17 / 4"
  using response_length_avg_formula
    [of "[(''a'', JNumber 3), (''b'', JString ''xy''), (''c'', JString [])]"
        example_response 1000 1000 1000]
  by (simp add: Object_values_def free_text_answers_def example_response_def)

text \<open>
  C4. The consistency score of the stored record is the number of checks passed
  divided by the number of checks, times 100, over the three pairs start village and
  off-grid interest, spirituality and spiritual-center interest, ambition and business
  interest, a check passing exactly when the two ratings differ by at most 3; the
  score lies between 0 and 100.
\<close>

theorem consistency_score_formula:
  "consistency_score (quality_metrics (userData fd now1 now2 now3))
     = of_nat (length (filter (\<lambda>passed. passed)
          [\<bar>startVillage fd - offGridVillage fd\<bar> \<le> 3,
           \<bar>spirituality fd - spiritualCenter fd\<bar> \<le> 3,
           \<bar>ambition fd - businessStartup fd\<bar> \<le> 3])) / 3 * 100
   \<and> 0 \<le> consistency_score (quality_metrics (userData fd now1 now2 now3))
   \<and> consistency_score (quality_metrics (userData fd now1 now2 now3)) \<le> 100"
  by (simp add: userData_def calculateConsistency_def consistencyChecks_def mcResponses_def)

text \<open>
  The example response rates start village 8 and off-grid interest 4: one check of
  three fails.
\<close>

theorem consistency_score_formula_witness:
  "consistency_score (quality_metrics (userData example_response 1000 1000 1000)) = 200 / 3"
  using consistency_score_formula [of example_response 1000 1000 1000]
  by (simp add: example_response_def)

text \<open>
  C8. The attribute scores and the quality metrics of the stored record depend on the
  response alone: two submissions of the same response, at any times, answered by the
  store with any identifiers and into any tables, store the same scores and the same
  metrics.
\<close>

theorem scores_independent_of_environment:
  assumes "submitUserForm fd now1 now2 now3 response table = (Inr r, table1)"
    and "submitUserForm fd now1' now2' now3' response' table' = (Inr r', table2)"
  shows "attribute_scores r = attribute_scores r' \<and> quality_metrics r = quality_metrics r'"
  using assms
  by (auto simp: submitUserForm_def Let_def userData_def split: insert_response.splits)

text \<open>
  The example response submitted twice, at different times and into different tables:
  the two stored rows differ, their scores and metrics do not.
\<close>

theorem scores_independent_of_environment_witness:
  "submitUserForm example_response 1000 1001 1002 (InsertOk ''u1'') []
     = (Inr (stored_row (userData example_response 1000 1001 1002) ''u1''),
        [stored_row (userData example_response 1000 1001 1002) ''u1''])
   \<and> submitUserForm example_response 2000 2001 2002 (InsertOk ''u2'') [pending_row]
     = (Inr (stored_row (userData example_response 2000 2001 2002) ''u2''),
        [pending_row, stored_row (userData example_response 2000 2001 2002) ''u2''])
   \<and> attribute_scores (stored_row (userData example_response 1000 1001 1002) ''u1'')
     = attribute_scores (stored_row (userData example_response 2000 2001 2002) ''u2'')
   \<and> quality_metrics (stored_row (userData example_response 1000 1001 1002) ''u1'')
     = quality_metrics (stored_row (userData example_response 2000 2001 2002) ''u2'')
   \<and> stored_row (userData example_response 1000 1001 1002) ''u1''
     \<noteq> stored_row (userData example_response 2000 2001 2002) ''u2''"
proof -
  have h1: "submitUserForm example_response 1000 1001 1002 (InsertOk ''u1'') []
     = (Inr (stored_row (userData example_response 1000 1001 1002) ''u1''),
        [stored_row (userData example_response 1000 1001 1002) ''u1''])"
    by (simp add: submitUserForm_def Let_def)
  have h2: "submitUserForm example_response 2000 2001 2002 (InsertOk ''u2'') [pending_row]
     = (Inr (stored_row (userData example_response 2000 2001 2002) ''u2''),
        [pending_row, stored_row (userData example_response 2000 2001 2002) ''u2''])"
    by (simp add: submitUserForm_def Let_def)
  have "id_row (stored_row (userData example_response 1000 1001 1002) ''u1'')
     \<noteq> id_row (stored_row (userData example_response 2000 2001 2002) ''u2'')"
    by simp
  then have h3: "stored_row (userData example_response 1000 1001 1002) ''u1''
     \<noteq> stored_row (userData example_response 2000 2001 2002) ''u2''"
    by metis
  from scores_independent_of_environment [OF h1 h2] h1 h2 h3 show ?thesis by blast
qed

section \<open>Submission\<close>

text \<open>
  C6, as stated, fails: a response with the rating 11 is not rejected. With a store
  that accepts the insert, \<^verbatim>\<open>submitUserForm\<close> returns the stored row, the table holds
  it, and its attribute scores carry the 11.
\<close>

theorem submit_accepts_out_of_range_rating:
  "\<not> likert_valid out_of_range_response
   \<and> fst (submitUserForm out_of_range_response 1000 1000 1000 (InsertOk ''u1'') [])
       = Inr (stored_row (userData out_of_range_response 1000 1000 1000) ''u1'')
   \<and> snd (submitUserForm out_of_range_response 1000 1000 1000 (InsertOk ''u1'') [])
       = [stored_row (userData out_of_range_response 1000 1000 1000) ''u1'']
   \<and> seeks_new_community (attribute_scores
        (stored_row (userData out_of_range_response 1000 1000 1000) ''u1'')) = 11"
  by (simp add: likert_valid_def likert_fields_def likert_buttons_def
       out_of_range_response_def example_response_def submitUserForm_def Let_def
       userData_def attributeScores_def)

text \<open>
  C6, amended. \<^verbatim>\<open>submitUserForm\<close> checks no rating: for every response, in range or
  not, an accepted insert stores and returns the record built from it, scores included.
  The operation fails only when the store rejects the insert; it then throws an error
  with the store's message (a fixed message if that is empty) and the table is as it
  was.
\<close>

theorem submit_fails_only_on_store_error:
  "submitUserForm fd now1 now2 now3 (InsertOk new_id) table
     = (Inr (stored_row (userData fd now1 now2 now3) new_id),
        table @ [stored_row (userData fd now1 now2 now3) new_id])
   \<and> attribute_scores (stored_row (userData fd now1 now2 now3) new_id) = attributeScores fd
   \<and> submitUserForm fd now1 now2 now3 (InsertError message) table
     = (Inl (Error (if message = [] then ''Failed to submit to Supabase'' else message)), table)"
  by (simp add: submitUserForm_def Let_def userData_def)

text \<open>The out-of-range response, once accepted and once rejected by the store.\<close>

theorem submit_fails_only_on_store_error_witness:
  "submitUserForm out_of_range_response 1000 1000 1000 (InsertOk ''u1'') [late_row]
     = (Inr (stored_row (userData out_of_range_response 1000 1000 1000) ''u1''),
        [late_row, stored_row (userData out_of_range_response 1000 1000 1000) ''u1''])
   \<and> submitUserForm out_of_range_response 1000 1000 1000 (InsertError []) [late_row]
     = (Inl (Error ''Failed to submit to Supabase''), [late_row])"
  using submit_fails_only_on_store_error
    [of out_of_range_response 1000 1000 1000 "''u1''" "[late_row]" "[]"]
  by simp

text \<open>
  C10. Every row that a submission adds to the table has quality status pending, is
  not marked for matching and is not synthetic; \<^verbatim>\<open>getMatchableUsers\<close>, on whatever
  table, does not return such a row.
\<close>

theorem submitted_row_not_matchable:
  assumes "submitUserForm fd now1 now2 now3 response table = (result, table')"
    and "r \<in> set table'" and "r \<notin> set table"
    and "getMatchableUsers fault later_table = Inr rows"
  shows "quality_status r = ''pending'' \<and> should_match r = False \<and> is_synthetic r = False
    \<and> r \<notin> set rows"
proof -
  have r: "r = stored_row (userData fd now1 now2 now3) (id_row r)"
    using assms(1-3)
    by (auto simp: submitUserForm_def Let_def split: insert_response.splits)
  have f: "quality_status r = ''pending'' \<and> should_match r = False \<and> is_synthetic r = False"
    by (subst r, subst (2) r, subst (3) r) (simp add: userData_def)
  have "set rows \<subseteq> {x. should_match x}"
    using assms(4)
    by (auto simp: getMatchableUsers_def order_created_at_desc_def split: option.splits)
  with f show ?thesis by auto
qed

text \<open>
  The example response submitted into a table that holds one approved row: the query
  returns the approved row only.
\<close>

theorem submitted_row_not_matchable_witness:
  "submitUserForm example_response 1000 1000 1000 (InsertOk ''u1'') [late_row]
     = (Inr pending_row, [late_row, pending_row])
   \<and> pending_row \<in> set [late_row, pending_row] \<and> pending_row \<notin> set [late_row]
   \<and> getMatchableUsers None [late_row, pending_row] = Inr [late_row]
   \<and> quality_status pending_row = ''pending'' \<and> should_match pending_row = False
   \<and> is_synthetic pending_row = False"
proof -
  have h1: "submitUserForm example_response 1000 1000 1000 (InsertOk ''u1'') [late_row]
     = (Inr pending_row, [late_row, pending_row])"
    by (simp add: submitUserForm_def Let_def pending_row_def)
  have h2: "pending_row \<in> set [late_row, pending_row]" by simp
  have "should_match pending_row \<noteq> should_match late_row"
    by (simp add: pending_row_def late_row_def userData_def)
  then have h3: "pending_row \<notin> set [late_row]" by auto
  have h4: "getMatchableUsers None [late_row, pending_row] = Inr [late_row]"
    by (simp add: getMatchableUsers_def order_created_at_desc_def pending_row_def
         late_row_def userData_def)
  from submitted_row_not_matchable [OF h1 h2 h3 h4] h1 h2 h3 h4 show ?thesis by blast
qed

section \<open>The candidate queries\<close>

text \<open>
  C9, as stated, fails: of two rows, the one created later is returned first by both
  queries.
\<close>

theorem queries_return_latest_first:
  "created_at early_row < created_at late_row
   \<and> getAllRealUsers None [early_row, late_row] = Inr [late_row, early_row]
   \<and> getMatchableUsers None [early_row, late_row] = Inr [late_row, early_row]"
  by (simp add: getAllRealUsers_def getMatchableUsers_def order_created_at_desc_def
       early_row_def late_row_def userData_def)

text \<open>
  C9, amended. When the store answers, \<^verbatim>\<open>getAllRealUsers\<close> returns exactly the rows that
  are not synthetic and \<^verbatim>\<open>getMatchableUsers\<close> exactly the rows marked for matching with
  quality status approved, both ordered by creation time descending, the latest
  arrival first.
\<close>

theorem queries_ordered_descending:
  "(\<exists>rows. getAllRealUsers None table = Inr rows
       \<and> sorted (rev (map created_at rows))
       \<and> mset rows = mset (filter (\<lambda>r. \<not> is_synthetic r) table))
   \<and> (\<exists>rows. getMatchableUsers None table = Inr rows
       \<and> sorted (rev (map created_at rows))
       \<and> mset rows = mset (filter (\<lambda>r. should_match r \<and> quality_status r = ''approved'') table))"
  by (simp add: getAllRealUsers_def getMatchableUsers_def order_desc_sorted order_desc_mset
       conj_commute)

text \<open>The two approved rows and the pending one.\<close>

theorem queries_ordered_descending_witness:
  "(\<exists>rows. getAllRealUsers None [early_row, pending_row, late_row] = Inr rows
       \<and> sorted (rev (map created_at rows))
       \<and> mset rows = mset (filter (\<lambda>r. \<not> is_synthetic r) [early_row, pending_row, late_row]))
   \<and> (\<exists>rows. getMatchableUsers None [early_row, pending_row, late_row] = Inr rows
       \<and> sorted (rev (map created_at rows))
       \<and> mset rows = mset (filter (\<lambda>r. should_match r \<and> quality_status r = ''approved'')
            [early_row, pending_row, late_row]))"
  by (rule queries_ordered_descending)

section \<open>Polling\<close>

text \<open>
  C5, evaluated where it fails. When the matches never arrive, polling from the state
  after a submission ends with the alert, but only after 21 reads of the record and
  63 seconds of timers: the test \<^verbatim>\<open>pollAttempts >= maxAttempts\<close> follows the read, and
  \<^verbatim>\<open>pollAttempts\<close> counts the reads before it.
\<close>

theorem polling_reads_exceed_ceiling:
  "reads (run_polling never_matched (after_submit ''u1'')) = 21
   \<and> pollAttempts (run_polling never_matched (after_submit ''u1'')) = 20
   \<and> waited (run_polling never_matched (after_submit ''u1'')) = 63000
   \<and> processing (run_polling never_matched (after_submit ''u1'')) = False
   \<and> matchData (run_polling never_matched (after_submit ''u1'')) = JNull
   \<and> alerts (messages (run_polling never_matched (after_submit ''u1'')))
       = [''Match calculation is taking longer than expected. Please check back later.'']"
proof -
  have "\<And>k. \<exists>r. getUserById (fst (never_matched k)) (snd (never_matched k)) ''u1'' = Inr r
          \<and> \<not> truthy (user_matches r)"
    by (simp add: never_matched_def pending_row_read)
  from never_matched_run [OF this, of "after_submit ''u1''"]
  have "run_polling never_matched (after_submit ''u1'') =
     (after_submit ''u1'') \<lparr> processing := False, pollAttempts := maxAttempts,
          reads := 21, waited := 63000,
          messages := replicate 20 (ConsoleLog ''Polling attempt'')
             @ [ConsoleLog ''Polling attempt'', ConsoleLog ''Max polling attempts reached'',
                Alert ''Match calculation is taking longer than expected. Please check back later.''] \<rparr>"
    by (simp add: after_submit_def maxAttempts_def pollInterval_def)
  then show ?thesis
    by (simp add: after_submit_def maxAttempts_def alerts_replicate_log)
qed

text \<open>
  C7. In every state in which polling is under way, a read of the record that throws
  ends polling: the error is written to the console, no alert is shown (the ending by
  timeout shows one), and neither the matches nor the attempt counter change.
\<close>

theorem poll_read_error_ends_polling:
  assumes "\<not> idle st" and "userId st = Some uid"
    and "getUserById (fst (store (reads st))) (snd (store (reads st))) uid = Inl e"
  shows "processing (run_polling store st) = False
    \<and> reads (run_polling store st) = reads st + 1
    \<and> console_errors (messages (run_polling store st))
        = console_errors (messages st) @ [''Error polling for matches:'']
    \<and> alerts (messages (run_polling store st)) = alerts (messages st)
    \<and> matchData (run_polling store st) = matchData st
    \<and> pollAttempts (run_polling store st) = pollAttempts st"
proof -
  let ?st' = "poll_once (store (reads st)) st"
  have p: "?st' = st \<lparr> processing := False, reads := reads st + 1,
      waited := waited st + pollInterval,
      messages := messages st @ [ConsoleError ''Error polling for matches:''] \<rparr>"
    using assms by (simp add: poll_once_def checkForMatches_def)
  have "run_polling store st = run_polling store ?st'"
    using assms(1) by (subst run_polling.simps) simp
  also have "\<dots> = ?st'"
    by (subst run_polling.simps) (simp add: p idle_def)
  finally have r: "run_polling store st = ?st'" .
  show ?thesis by (simp add: r p alerts_append_error console_errors_append_error)
qed

text \<open>A store that cannot be read, polled from the state after a submission.\<close>

theorem poll_read_error_ends_polling_witness:
  "\<not> idle (after_submit ''u1'') \<and> userId (after_submit ''u1'') = Some ''u1''
   \<and> getUserById (fst (unreadable (reads (after_submit ''u1''))))
        (snd (unreadable (reads (after_submit ''u1'')))) ''u1''
       = Inl (PostgrestError ''connection lost'')
   \<and> processing (run_polling unreadable (after_submit ''u1'')) = False
   \<and> reads (run_polling unreadable (after_submit ''u1'')) = 1
   \<and> console_errors (messages (run_polling unreadable (after_submit ''u1'')))
        = [''Error polling for matches:'']
   \<and> alerts (messages (run_polling unreadable (after_submit ''u1''))) = []"
proof -
  have h1: "\<not> idle (after_submit ''u1'')" by (simp add: idle_def after_submit_def)
  have h2: "userId (after_submit ''u1'') = Some ''u1''" by (simp add: after_submit_def)
  have h3: "getUserById (fst (unreadable (reads (after_submit ''u1''))))
        (snd (unreadable (reads (after_submit ''u1'')))) ''u1''
       = Inl (PostgrestError ''connection lost'')"
    by (simp add: getUserById_def unreadable_def)
  from poll_read_error_ends_polling
    [where st = "after_submit ''u1''" and store = unreadable, OF h1 h2 h3] h1 h2 h3
  show ?thesis
    by (simp add: after_submit_def)
qed

end
